theory Spec2Isabelle
  imports Complex_Main "HOL-Library.Word"
begin

section \<open>Python values shared by the three pipeline classes\<close>

text \<open>
  The development embeds \<^verbatim>\<open>projects/land_cover/cnn/model/CNNPipeline.py\<close>.
  Python exceptions are values; the collaborators the file imports (numpy, torch, rasterio,
  xarray, pytorch_toolbelt, scipy) are parameters of the model.
\<close>

datatype py_error =
    ValueError
  | IndexError
  | TypeError
  | ExternalError string

text \<open>
  A loss is a floating-point number. Only its order matters to the training loop, so the
  finite values are rationals; the three special values of IEEE arithmetic are kept.
\<close>

datatype fval = NaN | NInf | Fin rat | PInf

text \<open>\<^verbatim>\<open>a < b\<close> on floats: false as soon as one side is NaN.\<close>

fun flt :: "fval \<Rightarrow> fval \<Rightarrow> bool" where
  "flt NaN _ = False"
| "flt _ NaN = False"
| "flt _ NInf = False"
| "flt NInf _ = True"
| "flt PInf _ = False"
| "flt (Fin a) PInf = True"
| "flt (Fin a) (Fin b) = (a < b)"

text \<open>The builtin \<^verbatim>\<open>min(a, b)\<close>: \<^verbatim>\<open>b\<close> only when \<^verbatim>\<open>b < a\<close>.\<close>

definition py_min :: "fval \<Rightarrow> fval \<Rightarrow> fval" where
  "py_min a b = (if flt b a then b else a)"

section \<open>Train.train_loop\<close>

text \<open>
  What one epoch hands to the bookkeeping at the end of the loop body: the mean of the
  training losses and the mean of the validation losses (\<^verbatim>\<open>np.mean(val_loss_list)\<close>, NaN
  when the validation loader is empty). The forward and backward passes are the model's.
\<close>

record epoch_losses =
  mean_loss :: fval
  mean_val_loss :: fval

text \<open>
  The attributes and locals the loop updates. \<^verbatim>\<open>checkpoints\<close> lists the calls of
  \<^verbatim>\<open>torch.save\<close>, each with the epoch and the validation loss that name the file
  \<^verbatim>\<open>unet_epoch-{experiment}_{epoch}_{loss}.pt\<close>; \<^verbatim>\<open>lr_steps\<close> lists the epochs at
  which \<^verbatim>\<open>self.scheduler.step()\<close> was called.
\<close>

record train_state =
  min_loss :: fval
  scheduler_counter :: nat
  plot_losses :: "(nat \<times> fval \<times> fval) list"
  checkpoints :: "(nat \<times> fval) list"
  lr_steps :: "nat list"

text \<open>The part of the loop body after the two passes over the loaders (lines 339-379).\<close>

definition epoch_step :: "nat \<Rightarrow> epoch_losses \<Rightarrow> train_state \<Rightarrow> train_state" where
  "epoch_step epoch r s =
     (let s1 = s\<lparr>scheduler_counter := scheduler_counter s + 1\<rparr>;
          s2 = s1\<lparr>plot_losses := plot_losses s1 @ [(epoch, mean_loss r, mean_val_loss r)]\<rparr>;
          compare_loss = mean_val_loss r;
          is_best = flt compare_loss (min_loss s2);
          s3 = (if is_best
                then s2\<lparr>scheduler_counter := 0,
                        min_loss := py_min compare_loss (min_loss s2),
                        checkpoints := checkpoints s2 @ [(epoch, mean_val_loss r)]\<rparr>
                else s2)
      in if scheduler_counter s3 > 5
         then s3\<lparr>lr_steps := lr_steps s3 @ [epoch], scheduler_counter := 0\<rparr>
         else s3)"

text \<open>\<^verbatim>\<open>for epoch in range(self.max_epoch)\<close>, from epoch \<open>epoch\<close> on.\<close>

fun run_epochs :: "nat \<Rightarrow> epoch_losses list \<Rightarrow> train_state \<Rightarrow> train_state" where
  "run_epochs epoch [] s = s"
| "run_epochs epoch (r # rs) s = run_epochs (Suc epoch) rs (epoch_step epoch r s)"

text \<open>
  \<^verbatim>\<open>_train\<close> sets \<^verbatim>\<open>self.min_loss\<close> to infinity, and \<^verbatim>\<open>train_loop\<close> starts with an empty
  \<^verbatim>\<open>plot_losses\<close> and a zero \<^verbatim>\<open>scheduler_counter\<close>. The list holds one entry per epoch,
  so \<^verbatim>\<open>max_epoch\<close> is its length.
\<close>

definition train_init :: train_state where
  "train_init = \<lparr>min_loss = PInf, scheduler_counter = 0, plot_losses = [],
                  checkpoints = [], lr_steps = []\<rparr>"

definition train_loop :: "epoch_losses list \<Rightarrow> train_state \<Rightarrow> train_state" where
  "train_loop rs s = run_epochs 0 rs (s\<lparr>scheduler_counter := 0, plot_losses := []\<rparr>)"

definition train :: "epoch_losses list \<Rightarrow> train_state" where
  "train rs = train_loop rs train_init"

text \<open>An epoch whose only reported number is a finite validation loss.\<close>

definition val_epoch :: "rat \<Rightarrow> epoch_losses" where
  "val_epoch v = \<lparr>mean_loss = Fin v, mean_val_loss = Fin v\<rparr>"

section \<open>CloudDataset\<close>

text \<open>\<^verbatim>\<open>os.path.join\<close> of two components, as \<^verbatim>\<open>posixpath\<close> defines it.\<close>

definition path_join :: "string \<Rightarrow> string \<Rightarrow> string" where
  "path_join a b =
     (if take 1 b = ''/'' then b
      else if (case rev a of [] \<Rightarrow> True | c # _ \<Rightarrow> c = CHR ''/'') then a @ b
      else a @ ''/'' @ b)"

text \<open>The dictionary \<^verbatim>\<open>{'image': ..., 'label': ...}\<close> that \<^verbatim>\<open>list_files\<close> appends.\<close>

record file_entry =
  image_file :: string
  label_file :: string

text \<open>
  Python lists are objects: a variable holds a reference, and \<^verbatim>\<open>append\<close> changes the
  object every holder of the reference sees. The store maps the address of a list object to
  its current contents. The default value \<^verbatim>\<open>[]\<close> of the parameter \<^verbatim>\<open>files_list\<close> is
  created once, when the \<^verbatim>\<open>def\<close> statement runs; it is the object at
  \<open>files_list_default\<close>.
\<close>

type_synonym list_store = "nat \<Rightarrow> file_entry list"

definition files_list_default :: nat where
  "files_list_default = 0"

definition dir_entries :: "string \<Rightarrow> string list \<Rightarrow> file_entry list" where
  "dir_entries dataset_dir names =
     map (\<lambda>i. \<lparr>image_file = path_join (path_join dataset_dir ''images'') i,
                label_file = path_join (path_join dataset_dir ''labels'') i\<rparr>) names"

text \<open>
  \<^verbatim>\<open>list_files(self, dataset_dir, files_list=[])\<close>. \<open>listdir\<close> is \<^verbatim>\<open>os.listdir\<close>, which
  raises for a missing directory; \<open>files_list\<close> is \<open>None\<close> when the caller leaves the
  argument out. The result is the reference that was appended to.
\<close>

definition list_files ::
  "(string \<Rightarrow> py_error + string list) \<Rightarrow> string \<Rightarrow> nat option \<Rightarrow> list_store
     \<Rightarrow> py_error + (nat \<times> list_store)" where
  "list_files listdir dataset_dir files_list h =
     (let images_dir = path_join dataset_dir ''images'';
          target = (case files_list of None \<Rightarrow> files_list_default | Some a \<Rightarrow> a)
      in case listdir images_dir of
           Inl e \<Rightarrow> Inl e
         | Inr names \<Rightarrow> Inr (target, h(target := h target @ dir_entries dataset_dir names)))"

record cloud_dataset =
  files :: nat
  pytorch :: bool

text \<open>\<^verbatim>\<open>CloudDataset.__init__\<close> and \<^verbatim>\<open>__len__\<close>.\<close>

definition cloud_dataset_init ::
  "(string \<Rightarrow> py_error + string list) \<Rightarrow> string \<Rightarrow> bool \<Rightarrow> list_store
     \<Rightarrow> py_error + (cloud_dataset \<times> list_store)" where
  "cloud_dataset_init listdir dataset_dir pt h =
     (case list_files listdir dataset_dir None h of
        Inl e \<Rightarrow> Inl e
      | Inr (a, h') \<Rightarrow> Inr (\<lparr>files = a, pytorch = pt\<rparr>, h'))"

definition len :: "cloud_dataset \<Rightarrow> list_store \<Rightarrow> nat" where
  "len ds h = length (h (files ds))"

definition items :: "cloud_dataset \<Rightarrow> list_store \<Rightarrow> file_entry list" where
  "items ds h = h (files ds)"

text \<open>
  A program that constructs one dataset after another, one per directory of the list,
  with the default \<^verbatim>\<open>files_list\<close> each time.
\<close>

fun construct_datasets ::
  "(string \<Rightarrow> py_error + string list) \<Rightarrow> string list \<Rightarrow> list_store
     \<Rightarrow> py_error + (cloud_dataset list \<times> list_store)" where
  "construct_datasets listdir [] h = Inr ([], h)"
| "construct_datasets listdir (d # ds) h =
     (case cloud_dataset_init listdir d True h of
        Inl e \<Rightarrow> Inl e
      | Inr (x, h') \<Rightarrow>
          (case construct_datasets listdir ds h' of
             Inl e \<Rightarrow> Inl e
           | Inr (xs, h'') \<Rightarrow> Inr (x # xs, h'')))"

subsection \<open>Augmentation in \<^verbatim>\<open>__getitem__\<close>\<close>

text \<open>
  A tensor is the nested list of its entries, outermost dimension first: the image
  \<^verbatim>\<open>x\<close> has shape (C, H, W), the mask \<^verbatim>\<open>y\<close> has shape (H, W), both with every extent
  at least one. \<^verbatim>\<open>torch.fliplr\<close> is \<^verbatim>\<open>flip(1)\<close> and \<^verbatim>\<open>torch.flipud\<close> is \<^verbatim>\<open>flip(0)\<close>,
  whatever the number of dimensions, so one definition serves both tensors.
\<close>

definition fliplr :: "'a list list \<Rightarrow> 'a list list" where
  "fliplr t = map rev t"

definition flipud :: "'a list \<Rightarrow> 'a list" where
  "flipud t = rev t"

text \<open>
  \<^verbatim>\<open>torch.rot90(m, k, dims=[0, 1])\<close> on a matrix: \<^verbatim>\<open>flip(1).transpose(0, 1)\<close> for
  \<^verbatim>\<open>k = 1\<close>, \<^verbatim>\<open>flip(0, 1)\<close> for \<^verbatim>\<open>k = 2\<close>, \<^verbatim>\<open>flip(0).transpose(0, 1)\<close> for \<^verbatim>\<open>k = 3\<close>.
\<close>

definition rot90 :: "nat \<Rightarrow> 'a list list \<Rightarrow> 'a list list" where
  "rot90 k m =
     (if k mod 4 = 1 then transpose (map rev m)
      else if k mod 4 = 2 then rev (map rev m)
      else if k mod 4 = 3 then transpose (rev m)
      else m)"

text \<open>\<^verbatim>\<open>dims=[1, 2]\<close> on a (C, H, W) tensor rotates every channel.\<close>

definition rot90_chw :: "nat \<Rightarrow> 'a list list list \<Rightarrow> 'a list list list" where
  "rot90_chw k x = map (rot90 k) x"

text \<open>
  Lines 54-79 of \<^verbatim>\<open>__getitem__\<close>, after \<^verbatim>\<open>x\<close> and \<^verbatim>\<open>y\<close> have been opened. The five
  numbers are the five values \<^verbatim>\<open>np.random.random_sample()\<close> returns, in order.
\<close>

definition getitem ::
  "'a list list list \<Rightarrow> 'b list list \<Rightarrow> bool \<Rightarrow> rat \<times> rat \<times> rat \<times> rat \<times> rat
     \<Rightarrow> 'a list list list \<times> 'b list list" where
  "getitem x0 y0 augment u =
     (case u of (u1, u2, u3, u4, u5) \<Rightarrow>
        if augment then
          (let (x1, y1) = (if u1 > 1 / 2 then (fliplr x0, fliplr y0) else (x0, y0));
               (x2, y2) = (if u2 > 1 / 2 then (flipud x1, flipud y1) else (x1, y1));
               (x3, y3) = (if u3 > 1 / 2 then (rot90_chw 1 x2, rot90 1 y2) else (x2, y2));
               (x4, y4) = (if u4 > 1 / 2 then (rot90_chw 2 x3, rot90 2 y3) else (x3, y3));
               (x5, y5) = (if u5 > 1 / 2 then (rot90_chw 3 x4, rot90 3 y4) else (x4, y4))
           in (x5, y5))
        else (x0, y0))"

section \<open>Preprocess: pixel values\<close>

text \<open>\<^verbatim>\<open>np.clip(img, xmin, xmax)\<close>, which is \<^verbatim>\<open>minimum(maximum(img, xmin), xmax)\<close>.\<close>

definition np_clip :: "'a::linorder \<Rightarrow> 'a \<Rightarrow> 'a \<Rightarrow> 'a" where
  "np_clip v xmin xmax = min (max v xmin) xmax"

definition modify_pixel_extremity ::
  "'a::linorder list list list \<Rightarrow> 'a \<Rightarrow> 'a \<Rightarrow> 'a list list list" where
  "modify_pixel_extremity img xmin xmax = map (map (map (\<lambda>v. np_clip v xmin xmax))) img"

text \<open>\<^verbatim>\<open>np.moveaxis(a, 0, -1)\<close> on a three-dimensional array: (C, H, W) to (H, W, C).\<close>

definition moveaxis_0_last :: "'a list list list \<Rightarrow> 'a list list list" where
  "moveaxis_0_last a = map transpose (transpose a)"

text \<open>
  \<^verbatim>\<open>.astype(np.int16)\<close> on the integer values of a raster wraps to 16 bits;
  \<^verbatim>\<open>np.iinfo(np.int16).max\<close> is 32767. The quotient is a float in the source and the
  exact rational here.
\<close>

definition astype_int16 :: "int list list list \<Rightarrow> 16 word list list list" where
  "astype_int16 a = map (map (map word_of_int)) a"

definition iinfo_int16_max :: rat where
  "iinfo_int16_max = 32767"

definition normalize_int16 :: "16 word list list list \<Rightarrow> rat list list list" where
  "normalize_int16 a = map (map (map (\<lambda>v. of_int (sint v) / iinfo_int16_max))) a"

text \<open>
  The training path, for comparison with inference. \<^verbatim>\<open>_preprocess\<close> (lines 211 and
  226-227) casts the raster to int16 and clips the raw values; the tiles it saves are read
  back by \<^verbatim>\<open>CloudDataset.open_image\<close> (lines 99-101), which divides by
  \<^verbatim>\<open>np.iinfo(image.dtype).max\<close>. Cropping, tiling and the transposition to channels
  first move pixels without changing their values and are left out: both definitions keep
  the (H, W, C) layout.
\<close>

definition preprocess_values :: "int \<Rightarrow> int \<Rightarrow> int list list list \<Rightarrow> int list list list" where
  "preprocess_values dmin dmax chw =
     modify_pixel_extremity (map (map (map sint)) (astype_int16 (moveaxis_0_last chw))) dmin dmax"

text \<open>
  The dtype of the tiles is the dtype of the clipped array. \<^verbatim>\<open>np.clip\<close> of an int16 array
  with two bounds that are int16 values is an int16 array, whose \<^verbatim>\<open>np.iinfo\<close> maximum is
  32767. With a bound outside int16 numpy promotes the result to a wider type, by rules that
  depend on its version; that case is not modelled, and \<open>tile_iinfo_max\<close> is \<open>None\<close>.
\<close>

definition tile_iinfo_max :: "int \<Rightarrow> int \<Rightarrow> int option" where
  "tile_iinfo_max dmin dmax =
     (if - 32768 \<le> dmin \<and> dmin \<le> 32767 \<and> - 32768 \<le> dmax \<and> dmax \<le> 32767
      then Some 32767 else None)"

text \<open>
  Line 101, \<^verbatim>\<open>image / np.iinfo(image.dtype).max\<close>: the first argument is the maximum of
  the dtype of the tile that was read.
\<close>

definition open_image_values :: "int \<Rightarrow> int list list list \<Rightarrow> rat list list list" where
  "open_image_values iinfo_max hwc = map (map (map (\<lambda>v. of_int v / of_int iinfo_max))) hwc"

section \<open>Predict\<close>

subsection \<open>Configuration, files and collaborators\<close>

text \<open>
  The attribute \<^verbatim>\<open>data_predict\<close> holds a glob pattern when the object is configured;
  \<^verbatim>\<open>predict\<close> overwrites it with the list of files the pattern matches (line 418).
\<close>

datatype data_predict_attr = Pattern string | Globbed "string list"

text \<open>
  The attributes of \<^verbatim>\<open>Config\<close> that \<^verbatim>\<open>predict\<close> and \<^verbatim>\<open>_predict\<close> read.
  \<^verbatim>\<open>model_filename\<close> is \<open>None\<close> when the attribute is absent (the \<^verbatim>\<open>AttributeError\<close>
  branch); \<^verbatim>\<open>predict\<close> sets it then (line 404).
\<close>

record config =
  model_filename :: "string option"
  model_dir :: string
  data_predict :: data_predict_attr
  inference_output_dir :: string
  tile_size :: int
  overlap :: int
  data_min :: int
  data_max :: int
  pred_batch_size :: int

text \<open>A rasterio profile: the two keys \<^verbatim>\<open>arr_to_tif\<close> sets, and all the others.\<close>

record profile =
  count :: nat
  dtype :: string
  other_keys :: "(string \<times> string) list"

text \<open>\<^verbatim>\<open>os.stat\<close>: \<^verbatim>\<open>os.path.getctime\<close> reads \<^verbatim>\<open>st_ctime\<close>, \<^verbatim>\<open>os.path.getmtime\<close> reads \<^verbatim>\<open>st_mtime\<close>.\<close>

record file_stat =
  st_mtime :: rat
  st_ctime :: rat

text \<open>
  The collaborators, over the contents \<open>'f\<close> of a file, a loaded model \<open>'m\<close> and a tiler
  \<open>'t\<close>:
  \<^item> \<open>glob\<close> is \<^verbatim>\<open>glob.glob\<close> on the current files, \<open>stat\<close> is \<^verbatim>\<open>os.stat\<close>;
  \<^item> \<open>torch_load\<close> builds the network and loads the state dictionary of a checkpoint;
  \<^item> \<open>open_rasterio\<close> reads the bands of a raster, (C, H, W), and \<open>modify_bands\<close> is the
    band selection of \<^verbatim>\<open>Preprocess.modify_bands\<close>, which goes through xarray;
  \<^item> \<open>image_slicer\<close> is the constructor \<^verbatim>\<open>ImageSlicer(shape, tile_size, tile_step)\<close>;
  \<^item> \<open>predict_tiles\<close> is lines 475-502: split, batches of \<^verbatim>\<open>pred_batch_size\<close>, forward
    pass, arg-max, \<^verbatim>\<open>TileMerger\<close>, cast to uint8, crop, squeeze;
  \<^item> \<open>median_filter\<close> is scipy's, with its \<^verbatim>\<open>size\<close>;
  \<^item> \<open>rio_open\<close> reads the profile and \<^verbatim>\<open>read_masks(1)\<close> of a raster, \<open>np_load\<close> reads an
    array file, \<open>rio_write\<close> gives the contents of the file written from a profile and one
    band.
\<close>

record ('f, 'm, 't) collaborators =
  glob :: "(string \<rightharpoonup> 'f) \<Rightarrow> string \<Rightarrow> string list"
  stat :: "string \<Rightarrow> file_stat"
  torch_load :: "'f \<Rightarrow> py_error + 'm"
  open_rasterio :: "'f \<Rightarrow> py_error + int list list list"
  modify_bands :: "int list list list \<Rightarrow> py_error + int list list list"
  image_slicer :: "nat \<times> nat \<times> nat \<Rightarrow> int \<times> int \<Rightarrow> int \<times> int \<Rightarrow> py_error + 't"
  predict_tiles :: "'m \<Rightarrow> 't \<Rightarrow> rat list list list \<Rightarrow> int \<Rightarrow> py_error + 8 word list list"
  median_filter :: "8 word list list \<Rightarrow> nat \<Rightarrow> 8 word list list"
  rio_open :: "'f \<Rightarrow> py_error + (profile \<times> 8 word list list)"
  np_load :: "'f \<Rightarrow> py_error + int list list"
  rio_write :: "profile \<Rightarrow> 16 word list list \<Rightarrow> py_error + 'f"

text \<open>The records \<^verbatim>\<open>logging.info\<close> receives.\<close>

datatype log_record =
    Info string
  | InfoFilesToPredict nat
  | InfoTensorShape "nat \<times> nat \<times> nat"

text \<open>The calls that reach a collaborator, in order.\<close>

datatype ext_call =
    CallTorchLoad string
  | CallOpenRasterio string
  | CallImageSlicer "nat \<times> nat \<times> nat" "int \<times> int" "int \<times> int"
  | CallModel string
  | CallRioOpen string
  | CallNpLoad string
  | CallRioWrite string

text \<open>The regular files on disk, the log, and the trace of calls.\<close>

record 'f world =
  fs :: "string \<rightharpoonup> 'f"
  logged :: "log_record list"
  calls :: "ext_call list"

definition info :: "log_record \<Rightarrow> 'f world \<Rightarrow> 'f world" where
  "info r w = w\<lparr>logged := logged w @ [r]\<rparr>"

definition call :: "ext_call \<Rightarrow> 'f world \<Rightarrow> 'f world" where
  "call c w = w\<lparr>calls := calls w @ [c]\<rparr>"

text \<open>The tile size and the tile step of every tiler construction in a trace.\<close>

fun slicer_args :: "ext_call list \<Rightarrow> ((int \<times> int) \<times> (int \<times> int)) list" where
  "slicer_args [] = []"
| "slicer_args (CallImageSlicer shape tsize tstep # cs) = (tsize, tstep) # slicer_args cs"
| "slicer_args (c # cs) = slicer_args cs"

text \<open>Opening a path: a missing file raises, an existing one is handed to the reader.\<close>

definition read_file :: "('f \<Rightarrow> py_error + 'a) \<Rightarrow> 'f world \<Rightarrow> string \<Rightarrow> py_error + 'a" where
  "read_file reader w path =
     (case fs w path of
        None \<Rightarrow> Inl (ExternalError ''No such file'')
      | Some f \<Rightarrow> reader f)"

text \<open>
  A call that raises leaves the world as it was when the exception was raised; the
  exception and that world are the left summand.
\<close>

type_synonym 'f outcome = "(py_error \<times> 'f world) + 'f world"

definition world_of :: "'f outcome \<Rightarrow> 'f world" where
  "world_of r = (case r of Inl (e, w) \<Rightarrow> w | Inr w \<Rightarrow> w)"

subsection \<open>Choosing the checkpoint\<close>

text \<open>The builtin \<^verbatim>\<open>max(xs, key=k)\<close>: the first element with the greatest key.\<close>

fun py_max_key :: "('a \<Rightarrow> 'k::linorder) \<Rightarrow> 'a list \<Rightarrow> py_error + 'a" where
  "py_max_key k [] = Inl ValueError"
| "py_max_key k (x # xs) = Inr (fold (\<lambda>y best. if k y > k best then y else best) xs x)"

definition getctime :: "('f, 'm, 't) collaborators \<Rightarrow> string \<Rightarrow> rat" where
  "getctime ext path = st_ctime (stat ext path)"

definition getmtime :: "('f, 'm, 't) collaborators \<Rightarrow> string \<Rightarrow> rat" where
  "getmtime ext path = st_mtime (stat ext path)"

text \<open>Lines 400-404 of \<^verbatim>\<open>predict\<close>.\<close>

definition select_model ::
  "config \<Rightarrow> ('f, 'm, 't) collaborators \<Rightarrow> 'f world \<Rightarrow> py_error + string" where
  "select_model cfg ext w =
     (case model_filename cfg of
        Some f \<Rightarrow> Inr f
      | None \<Rightarrow>
          (let models_list = glob ext (fs w) (path_join (model_dir cfg) ''*.pt'')
           in py_max_key (getctime ext) models_list))"

subsection \<open>Writing the prediction\<close>

text \<open>The argument \<^verbatim>\<open>segments\<close> is an array or the name of a file that holds one.\<close>

datatype segments_arg = SegArray "int list list" | SegFile string

text \<open>
  \<^verbatim>\<open>arr_to_tif\<close>. The sentinel \<^verbatim>\<open>ndval\<close> is the int16 value it denotes (the source passes
  -9999). An assignment through a boolean mask needs equal shapes and raises
  \<^verbatim>\<open>IndexError\<close> otherwise.
\<close>

definition arr_to_tif ::
  "('f, 'm, 't) collaborators \<Rightarrow> string \<Rightarrow> segments_arg \<Rightarrow> string \<Rightarrow> 16 word \<Rightarrow> 'f world
     \<Rightarrow> 'f outcome" where
  "arr_to_tif ext raster_f segments out_tif ndval w0 =
     (let w1 = call (CallRioOpen raster_f) w0
      in case read_file (rio_open ext) w1 raster_f of
           Inl e \<Rightarrow> Inl (e, w1)
         | Inr (meta, masks) \<Rightarrow>
             (let nodatavals = map (map ucast) masks :: 16 word list list;
                  (loaded, w2) = (case segments of
                                    SegArray a \<Rightarrow> (Inr a, w1)
                                  | SegFile path \<Rightarrow>
                                      (read_file (np_load ext) w1 path, call (CallNpLoad path) w1))
              in case loaded of
                   Inl e \<Rightarrow> Inl (e, w2)
                 | Inr arr \<Rightarrow>
                     (let segments16 = map (map word_of_int) arr :: 16 word list list;
                          nodatavals' = map (map (\<lambda>v. if v = 0 then ndval else v)) nodatavals
                      in if map length nodatavals' \<noteq> map length segments16
                         then Inl (IndexError, w2)
                         else
                           (let segments' =
                                  map2 (map2 (\<lambda>n s. if n = ndval then n else s))
                                    nodatavals' segments16;
                                out_meta = meta\<lparr>count := 1, dtype := ''int16''\<rparr>;
                                w3 = call (CallRioWrite out_tif) w2
                            in case rio_write ext out_meta segments' of
                                 Inl e \<Rightarrow> Inl (e, w3)
                               | Inr f \<Rightarrow> Inr (w3\<lparr>fs := (fs w3)(out_tif \<mapsto> f)\<rparr>)))))"

subsection \<open>One file\<close>

text \<open>\<^verbatim>\<open>s.split('/')[-1]\<close>: what follows the last slash.\<close>

definition last_component :: "string \<Rightarrow> string" where
  "last_component s = rev (takeWhile (\<lambda>c. c \<noteq> CHR ''/'') (rev s))"

text \<open>Lines 439-441: \<^verbatim>\<open>filename[:-4]\<close> drops the last four characters.\<close>

definition raster_name :: "config \<Rightarrow> string \<Rightarrow> string" where
  "raster_name cfg filename =
     path_join (inference_output_dir cfg)
       (last_component (take (length filename - 4) filename) @ ''_pred.tif'')"

text \<open>\<^verbatim>\<open>os.path.isfile\<close>.\<close>

definition isfile :: "'f world \<Rightarrow> string \<Rightarrow> bool" where
  "isfile w path = (fs w path \<noteq> None)"

text \<open>Lines 457-464: channels last, int16, division by the int16 maximum, then the clip.\<close>

definition load_stage :: "config \<Rightarrow> int list list list \<Rightarrow> rat list list list" where
  "load_stage cfg chw =
     (let img = astype_int16 (moveaxis_0_last chw);
          img = normalize_int16 img
      in modify_pixel_extremity img (of_int (data_min cfg)) (of_int (data_max cfg)))"

text \<open>\<^verbatim>\<open>img.shape\<close> of a (H, W, C) array with no empty extent.\<close>

definition shape3 :: "'a list list list \<Rightarrow> nat \<times> nat \<times> nat" where
  "shape3 img =
     (length img,
      (case img of [] \<Rightarrow> 0 | r # _ \<Rightarrow> length r),
      (case img of [] \<Rightarrow> 0 | r # _ \<Rightarrow> (case r of [] \<Rightarrow> 0 | p # _ \<Rightarrow> length p)))"

text \<open>\<^verbatim>\<open>_predict\<close>.\<close>

definition predict_one ::
  "config \<Rightarrow> ('f, 'm, 't) collaborators \<Rightarrow> 'm \<Rightarrow> string \<Rightarrow> 'f world \<Rightarrow> 'f outcome" where
  "predict_one cfg ext model filename w0 =
     (let w1 = info (Info (''File: '' @ filename)) w0;
          rn = raster_name cfg filename
      in if \<not> isfile w1 rn then
           (let w2 = call (CallOpenRasterio filename) w1
            in case read_file (open_rasterio ext) w2 filename of
                 Inl e \<Rightarrow> Inl (e, w2)
               | Inr bands \<Rightarrow>
                   (case modify_bands ext bands of
                      Inl e \<Rightarrow> Inl (e, w2)
                    | Inr chw \<Rightarrow>
                        (let img = load_stage cfg chw;
                             w3 = info (InfoTensorShape (shape3 img)) w2;
                             tsize = (tile_size cfg, tile_size cfg);
                             tstep = (overlap cfg, overlap cfg);
                             w4 = call (CallImageSlicer (shape3 img) tsize tstep) w3
                         in case image_slicer ext (shape3 img) tsize tstep of
                              Inl e \<Rightarrow> Inl (e, w4)
                            | Inr tiler \<Rightarrow>
                                (let w5 = call (CallModel filename) w4
                                 in case predict_tiles ext model tiler img (pred_batch_size cfg) of
                                      Inl e \<Rightarrow> Inl (e, w5)
                                    | Inr merged_mask \<Rightarrow>
                                        (let merged_mask = median_filter ext merged_mask 25
                                         in case arr_to_tif ext filename
                                                   (SegArray (map (map uint) merged_mask))
                                                   rn (- 9999) w5 of
                                              Inl ew \<Rightarrow> Inl ew
                                            | Inr w6 \<Rightarrow>
                                                Inr (info (Info (''Saved Filename: '' @ rn)) w6))))))
         else Inr (info (Info (rn @ '' already predicted.'')) w1))"

subsection \<open>The batch\<close>

text \<open>\<^verbatim>\<open>for r in self.data_predict: self._predict(r)\<close>.\<close>

fun predict_files ::
  "config \<Rightarrow> ('f, 'm, 't) collaborators \<Rightarrow> 'm \<Rightarrow> string list \<Rightarrow> 'f world \<Rightarrow> 'f outcome" where
  "predict_files cfg ext model [] w = Inr w"
| "predict_files cfg ext model (r # rs) w =
     (case predict_one cfg ext model r w of
        Inl ew \<Rightarrow> Inl ew
      | Inr w' \<Rightarrow> predict_files cfg ext model rs w')"

text \<open>
  \<^verbatim>\<open>predict\<close> changes two attributes of the object it is called on, so the result carries
  the configuration as the call leaves it, next to the world. The second assignment makes a
  further call on the same object hand a list to \<^verbatim>\<open>glob.glob\<close>, which raises
  \<^verbatim>\<open>TypeError\<close>.
\<close>

type_synonym 'f run = "(py_error \<times> config \<times> 'f world) + (config \<times> 'f world)"

definition predict :: "config \<Rightarrow> ('f, 'm, 't) collaborators \<Rightarrow> 'f world \<Rightarrow> 'f run" where
  "predict cfg0 ext w0 =
     (let w1 = info (Info ''Starting Prediction Step...'') w0
      in case select_model cfg0 ext w1 of
           Inl e \<Rightarrow> Inl (e, cfg0, w1)
         | Inr mf \<Rightarrow>
             (let cfg1 = cfg0\<lparr>model_filename := Some mf\<rparr>;
                  w2 = info (Info (''Loading '' @ mf)) w1;
                  w3 = info (Info ''Loaded model...'') w2;
                  w4 = call (CallTorchLoad mf) w3
              in case read_file (torch_load ext) w4 mf of
                   Inl e \<Rightarrow> Inl (e, cfg1, w4)
                 | Inr model \<Rightarrow>
                     (case data_predict cfg1 of
                        Globbed listed \<Rightarrow> Inl (TypeError, cfg1, w4)
                      | Pattern pat \<Rightarrow>
                          (let files_to_predict = glob ext (fs w4) pat;
                               cfg2 = cfg1\<lparr>data_predict := Globbed files_to_predict\<rparr>;
                               w5 = info (InfoFilesToPredict (length files_to_predict)) w4
                           in case predict_files cfg2 ext model files_to_predict w5 of
                                Inl (e, w) \<Rightarrow> Inl (e, cfg2, w)
                              | Inr w \<Rightarrow> Inr (cfg2, w)))))"

section \<open>A concrete installation\<close>

text \<open>
  Small files and stub collaborators on which the model can be run. The tiler stub rejects a
  step below 1 or above the tile size, as \<^verbatim>\<open>pytorch_toolbelt\<close> does; the model stub
  predicts class 1 everywhere; the median filter stub is the identity.
\<close>

datatype demo_file =
    SourceTif profile "int list list list" "8 word list list"
  | PredTif profile "16 word list list"
  | Checkpoint
  | Garbage

definition demo_profile :: profile where
  "demo_profile = \<lparr>count = 1, dtype = ''uint16'', other_keys = [(''crs'', ''EPSG:32628'')]\<rparr>"

definition demo_ext :: "(demo_file, unit, (int \<times> int) \<times> (int \<times> int)) collaborators" where
  "demo_ext =
     \<lparr>glob = (\<lambda>files pat.
                filter (\<lambda>p. files p \<noteq> None)
                  (if pat = ''models/*.pt'' then [''models/old.pt'', ''models/new.pt'']
                   else if pat = ''in/*.tif'' then [''in/b.tif'', ''in/a.tif'']
                   else if pat = ''in/?.tif'' then [''in/a.tif'', ''in/b.tif'', ''in/c.tif'']
                   else [])),
      stat = (\<lambda>p. if p = ''models/old.pt'' then \<lparr>st_mtime = 10, st_ctime = 30\<rparr>
                   else \<lparr>st_mtime = 20, st_ctime = 20\<rparr>),
      torch_load = (\<lambda>f. case f of Checkpoint \<Rightarrow> Inr () | _ \<Rightarrow> Inl (ExternalError ''torch.load'')),
      open_rasterio = (\<lambda>f. case f of SourceTif p b m \<Rightarrow> Inr b
                                    | _ \<Rightarrow> Inl (ExternalError ''open_rasterio'')),
      modify_bands = Inr,
      image_slicer = (\<lambda>shape tsize tstep.
                        if fst tstep < 1 \<or> fst tstep > fst tsize \<or>
                           snd tstep < 1 \<or> snd tstep > snd tsize
                        then Inl ValueError else Inr (tsize, tstep)),
      predict_tiles = (\<lambda>model tiler img batch. Inr (map (map (\<lambda>px. 1)) img)),
      median_filter = (\<lambda>a n. a),
      rio_open = (\<lambda>f. case f of SourceTif p b m \<Rightarrow> Inr (p, m)
                               | _ \<Rightarrow> Inl (ExternalError ''rio.open'')),
      np_load = (\<lambda>f. Inl (ExternalError ''np.load'')),
      rio_write = (\<lambda>p a. Inr (PredTif p a))\<rparr>"

definition demo_cfg :: config where
  "demo_cfg =
     \<lparr>model_filename = None, model_dir = ''models'', data_predict = Pattern ''in/*.tif'',
      inference_output_dir = ''out'', tile_size = 256, overlap = 64,
      data_min = 0, data_max = 10000, pred_batch_size = 8\<rparr>"

definition demo_world :: "demo_file world" where
  "demo_world =
     \<lparr>fs = [''in/a.tif'' \<mapsto> SourceTif demo_profile [[[20000, 5]]] [[255, 0]],
            ''in/b.tif'' \<mapsto> Garbage,
            ''models/old.pt'' \<mapsto> Checkpoint,
            ''models/new.pt'' \<mapsto> Checkpoint],
      logged = [], calls = []\<rparr>"



definition demo_wide_cfg :: config where
  "demo_wide_cfg = demo_cfg\<lparr>overlap := 300\<rparr>"

text \<open>A dataset directory with two tiles, for \<^verbatim>\<open>os.listdir\<close>.\<close>

definition demo_listdir :: "string \<Rightarrow> py_error + string list" where
  "demo_listdir path =
     (if path = ''data/images'' then Inr [''t_0.tif'', ''t_1.tif'']
      else Inl (ExternalError ''No such directory''))"

section \<open>Properties of the training loop\<close>

lemma epoch_step_checkpoints:
  "checkpoints (epoch_step e r s) =
     (if flt (mean_val_loss r) (min_loss s) then checkpoints s @ [(e, mean_val_loss r)]
      else checkpoints s)"
  by (simp add: epoch_step_def Let_def)

lemma flt_py_min: "flt a b \<Longrightarrow> py_min a b = a"
  by (cases a; cases b) (auto simp: py_min_def)

lemma epoch_step_min_loss:
  "min_loss (epoch_step e r s) =
     (if flt (mean_val_loss r) (min_loss s) then mean_val_loss r else min_loss s)"
  by (simp add: epoch_step_def Let_def flt_py_min)

lemma run_epochs_append:
  "run_epochs e (rs @ rs') s = run_epochs (e + length rs) rs' (run_epochs e rs s)"
  by (induction rs arbitrary: e s) simp_all

lemma run_epochs_no_improvement:
  "\<forall>r \<in> set rs. \<not> flt (mean_val_loss r) (min_loss s) \<Longrightarrow>
   checkpoints (run_epochs e rs s) = checkpoints s \<and> min_loss (run_epochs e rs s) = min_loss s"
proof (induction rs arbitrary: e s)
  case Nil
  then show ?case by simp
next
  case (Cons r rs)
  then show ?case by (simp add: epoch_step_checkpoints epoch_step_min_loss)
qed

lemma run_epochs_decreasing:
  "sorted_wrt (>) ds \<Longrightarrow> (\<forall>d \<in> set ds. flt (Fin d) (min_loss s)) \<Longrightarrow>
   checkpoints (run_epochs e (map val_epoch ds) s) =
     checkpoints s @ enumerate e (map Fin ds) \<and>
   min_loss (run_epochs e (map val_epoch ds) s) = (if ds = [] then min_loss s else Fin (last ds))"
proof (induction ds arbitrary: e s)
  case Nil
  then show ?case by simp
next
  case (Cons d ds)
  let ?s = "epoch_step e (val_epoch d) s"
  have m: "min_loss ?s = Fin d" and c: "checkpoints ?s = checkpoints s @ [(e, Fin d)]"
    using Cons.prems(2) by (simp_all add: epoch_step_checkpoints epoch_step_min_loss val_epoch_def)
  have "sorted_wrt (>) ds" "\<forall>x \<in> set ds. flt (Fin x) (min_loss ?s)"
    using Cons.prems(1) by (auto simp: m)
  from Cons.IH[OF this, of "Suc e"] show ?case
    by (simp add: c m)
qed

lemma train_decreasing_then_increasing:
  assumes "sorted_wrt (>) ds" "ds \<noteq> []" "sorted_wrt (<) (last ds # us)"
  shows "checkpoints (train (map val_epoch (ds @ us))) = enumerate 0 (map Fin ds)"
proof -
  let ?s0 = "train_init\<lparr>scheduler_counter := 0, plot_losses := []\<rparr>"
  let ?s1 = "run_epochs 0 (map val_epoch ds) ?s0"
  have d: "checkpoints ?s1 = enumerate 0 (map Fin ds)" "min_loss ?s1 = Fin (last ds)"
    using run_epochs_decreasing[OF assms(1), of ?s0 0] assms(2)
    by (simp_all add: train_init_def)
  have "\<forall>r \<in> set (map val_epoch us). \<not> flt (mean_val_loss r) (min_loss ?s1)"
    using assms(3) by (auto simp: d val_epoch_def)
  from run_epochs_no_improvement[OF this, of "length ds"] show ?thesis
    by (simp add: train_def train_loop_def run_epochs_append d)
qed


text \<open>
  C5. In every epoch a checkpoint is saved exactly when the mean validation loss of the epoch
  is strictly below the running minimum, and the running minimum then becomes that loss. A
  run whose validation losses strictly decrease over the epochs of \<open>ds\<close> and increase from
  there on over the epochs of \<open>us\<close> saves one checkpoint for each epoch of \<open>ds\<close> and none
  afterwards.
\<close>

theorem checkpoint_iff_strict_improvement:
  "checkpoints (epoch_step e r s) =
     (if flt (mean_val_loss r) (min_loss s) then checkpoints s @ [(e, mean_val_loss r)]
      else checkpoints s) \<and>
   min_loss (epoch_step e r s) =
     (if flt (mean_val_loss r) (min_loss s) then mean_val_loss r else min_loss s) \<and>
   (sorted_wrt (>) ds \<and> ds \<noteq> [] \<and> sorted_wrt (<) (last ds # us) \<longrightarrow>
      checkpoints (train (map val_epoch (ds @ us))) = enumerate 0 (map Fin ds))"
  using epoch_step_checkpoints[of e r s] epoch_step_min_loss[of e r s]
    train_decreasing_then_increasing[of ds us]
  by blast

theorem checkpoint_iff_strict_improvement_witness:
  "sorted_wrt (>) [3, 2, 1 :: rat] \<and> [3, 2, 1 :: rat] \<noteq> [] \<and>
   sorted_wrt (<) (last [3, 2, 1 :: rat] # [2, 3]) \<and>
   checkpoints (train (map val_epoch ([3, 2, 1] @ [2, 3]))) = [(0, Fin 3), (1, Fin 2), (2, Fin 1)]"
  using checkpoint_iff_strict_improvement[of 0 "val_epoch 1" train_init "[3, 2, 1]" "[2, 3]"]
  by simp

lemma epoch_step_improving:
  "flt (mean_val_loss r) (min_loss s) \<Longrightarrow>
   scheduler_counter (epoch_step e r s) = 0 \<and> lr_steps (epoch_step e r s) = lr_steps s"
  by (simp add: epoch_step_def Let_def)

lemma epoch_step_stalled:
  "\<not> flt (mean_val_loss r) (min_loss s) \<Longrightarrow>
   scheduler_counter (epoch_step e r s) =
     (if scheduler_counter s < 5 then scheduler_counter s + 1 else 0) \<and>
   lr_steps (epoch_step e r s) =
     (if scheduler_counter s < 5 then lr_steps s else lr_steps s @ [e])"
  by (simp add: epoch_step_def Let_def)

lemma run_epochs_stalled:
  "\<forall>r \<in> set rs. \<not> flt (mean_val_loss r) (min_loss s) \<Longrightarrow> scheduler_counter s \<le> 5 \<Longrightarrow>
   length (lr_steps (run_epochs e rs s)) =
     length (lr_steps s) + (scheduler_counter s + length rs) div 6 \<and>
   scheduler_counter (run_epochs e rs s) = (scheduler_counter s + length rs) mod 6"
proof (induction rs arbitrary: e s)
  case Nil
  then show ?case by simp
next
  case (Cons r rs)
  let ?s = "epoch_step e r s"
  let ?c = "scheduler_counter s"
  have st: "\<not> flt (mean_val_loss r) (min_loss s)"
    using Cons.prems(1) by simp
  have m: "min_loss ?s = min_loss s"
    using st by (simp add: epoch_step_min_loss)
  have rest: "\<forall>r \<in> set rs. \<not> flt (mean_val_loss r) (min_loss ?s)"
    using Cons.prems(1) by (simp add: m)
  show ?case
  proof (cases "?c < 5")
    case True
    have c: "scheduler_counter ?s = ?c + 1" and l: "lr_steps ?s = lr_steps s"
      using epoch_step_stalled[OF st, of e] True by simp_all
    have "scheduler_counter ?s \<le> 5"
      using True c by simp
    from Cons.IH[OF rest this, of "Suc e"] show ?thesis
      by (simp add: c l)
  next
    case False
    then have five: "?c = 5"
      using Cons.prems(2) by simp
    have c: "scheduler_counter ?s = 0" and l: "lr_steps ?s = lr_steps s @ [e]"
      using epoch_step_stalled[OF st, of e] False by simp_all
    have "scheduler_counter ?s \<le> 5"
      using c by simp
    from Cons.IH[OF rest this, of "Suc e"] show ?thesis
      by (simp add: c l five)
  qed
qed

text \<open>
  C6, as the code has it. The counter is incremented in every epoch and the schedule decays
  when the counter exceeds 5: an improving epoch sets the counter to zero and decays nothing;
  an epoch without improvement decays exactly when the counter had already reached 5, and
  then sets it to zero. So, from a zero counter, \<open>n\<close> consecutive epochs without improvement
  decay the schedule \<open>n div 6\<close> times: not at all for five epochs, once at the sixth.
\<close>

theorem lr_decay_after_six_stalled_epochs:
  "scheduler_counter (epoch_step e r s) =
     (if flt (mean_val_loss r) (min_loss s) then 0
      else if scheduler_counter s < 5 then scheduler_counter s + 1 else 0) \<and>
   lr_steps (epoch_step e r s) =
     (if flt (mean_val_loss r) (min_loss s) \<or> scheduler_counter s < 5 then lr_steps s
      else lr_steps s @ [e]) \<and>
   ((\<forall>r \<in> set rs. \<not> flt (mean_val_loss r) (min_loss s)) \<and> scheduler_counter s = 0 \<longrightarrow>
      length (lr_steps (run_epochs e rs s)) = length (lr_steps s) + length rs div 6 \<and>
      scheduler_counter (run_epochs e rs s) = length rs mod 6)"
  using epoch_step_improving[of r s e] epoch_step_stalled[of r s e]
    run_epochs_stalled[of rs s e]
  by (cases "flt (mean_val_loss r) (min_loss s)") simp_all

theorem lr_decay_after_six_stalled_epochs_witness:
  "scheduler_counter (epoch_step 0 (val_epoch 1) train_init) = 0 \<and>
   lr_steps (epoch_step 0 (val_epoch 1) train_init) = [] \<and>
   list_all (\<lambda>r. \<not> flt (mean_val_loss r) (min_loss (epoch_step 0 (val_epoch 1) train_init)))
     (replicate 6 (val_epoch 2)) \<and>
   length (lr_steps (run_epochs 1 (replicate 6 (val_epoch 2))
                      (epoch_step 0 (val_epoch 1) train_init))) = 1 \<and>
   scheduler_counter (run_epochs 1 (replicate 6 (val_epoch 2))
                       (epoch_step 0 (val_epoch 1) train_init)) = 0"
proof -
  let ?s = "epoch_step 0 (val_epoch 1) train_init"
  have i: "flt (mean_val_loss (val_epoch 1)) (min_loss train_init)"
    and l0: "lr_steps train_init = []"
    by (simp_all add: val_epoch_def train_init_def)
  have c: "scheduler_counter ?s = 0" and l: "lr_steps ?s = []"
    using lr_decay_after_six_stalled_epochs[of 0 "val_epoch 1" train_init "[]"] i l0
    by simp_all
  have m: "min_loss ?s = Fin 1"
    by (simp add: epoch_step_def Let_def val_epoch_def train_init_def py_min_def)
  have n: "\<not> flt (mean_val_loss (val_epoch 2)) (min_loss ?s)"
    unfolding m by (simp add: val_epoch_def)
  have a: "\<forall>r \<in> set (replicate 6 (val_epoch 2)). \<not> flt (mean_val_loss r) (min_loss ?s)"
    using n by simp
  show ?thesis
    using lr_decay_after_six_stalled_epochs[of 1 "val_epoch 2" ?s "replicate 6 (val_epoch 2)"]
      c l a
    by (simp add: list_all_iff)
qed

text \<open>
  Epoch 0 improves on the initial minimum; the five epochs after it do not, and the schedule
  has not decayed when they are over.
\<close>

theorem lr_decay_after_five_counterexample:
  "lr_steps (train (map val_epoch [1, 2, 2, 2, 2, 2])) = [] \<and>
   scheduler_counter (train (map val_epoch [1, 2, 2, 2, 2, 2])) = 5 \<and>
   lr_steps (train (map val_epoch [1, 2, 2, 2, 2, 2, 2])) = [6]"
  by code_simp

section \<open>Properties of CloudDataset\<close>

lemma list_files_default:
  "listdir (path_join d ''images'') = Inr names \<Longrightarrow>
   list_files listdir d None h =
     Inr (files_list_default,
          h(files_list_default := h files_list_default @ dir_entries d names))"
  by (simp add: list_files_def)

lemma construct_datasets_default:
  "\<forall>d \<in> set dirs. listdir (path_join d ''images'') = Inr (names_of d) \<Longrightarrow>
   construct_datasets listdir dirs h =
     Inr (replicate (length dirs) \<lparr>files = files_list_default, pytorch = True\<rparr>,
          h(files_list_default :=
              h files_list_default @ concat (map (\<lambda>d. dir_entries d (names_of d)) dirs)))"
proof (induction dirs arbitrary: h)
  case Nil
  then show ?case by simp
next
  case (Cons d dirs)
  let ?h = "h(files_list_default := h files_list_default @ dir_entries d (names_of d))"
  have one: "cloud_dataset_init listdir d True h =
               Inr (\<lparr>files = files_list_default, pytorch = True\<rparr>, ?h)"
    using Cons.prems by (simp add: cloud_dataset_init_def list_files_default)
  have "\<forall>d \<in> set dirs. listdir (path_join d ''images'') = Inr (names_of d)"
    using Cons.prems by simp
  then have ih: "construct_datasets listdir dirs ?h =
      Inr (replicate (length dirs) \<lparr>files = files_list_default, pytorch = True\<rparr>,
           ?h(files_list_default :=
                ?h files_list_default @ concat (map (\<lambda>d. dir_entries d (names_of d)) dirs)))"
    by (rule Cons.IH)
  show ?case
    by (simp add: one ih fun_eq_iff)
qed

lemma length_dir_entries: "length (dir_entries d names) = length names"
  by (simp add: dir_entries_def)

lemma length_concat_const:
  "list_all (\<lambda>d. length (f d) = n) dirs \<Longrightarrow> length (concat (map f dirs)) = length dirs * n"
  by (induction dirs) simp_all

text \<open>
  C9. The default \<^verbatim>\<open>files_list\<close> is one list shared by all calls. When datasets are
  constructed one after another for the directories \<open>dirs\<close>, starting from the empty
  default, every one of them holds the reference to the default list, whose items are the
  entries of all the directories in order: a later dataset reports the files of the earlier
  ones as well as its own. When each images directory holds \<open>n\<close> files, the list has
  length \<open>k * n\<close> after the \<open>k\<close>-th construction.
\<close>

theorem list_files_shared_default:
  assumes "\<forall>d \<in> set dirs. listdir (path_join d ''images'') = Inr (names_of d)"
    and "h files_list_default = []"
  shows "\<exists>dss h'. construct_datasets listdir dirs h = Inr (dss, h') \<and>
           length dss = length dirs \<and>
           list_all (\<lambda>ds. files ds = files_list_default \<and>
                          items ds h' = concat (map (\<lambda>d. dir_entries d (names_of d)) dirs)) dss \<and>
           (list_all (\<lambda>d. length (names_of d) = n) dirs \<longrightarrow>
              list_all (\<lambda>ds. len ds h' = length dirs * n) dss)"
proof -
  let ?all = "concat (map (\<lambda>d. dir_entries d (names_of d)) dirs)"
  let ?dss = "replicate (length dirs) \<lparr>files = files_list_default, pytorch = True\<rparr>"
  let ?h = "h(files_list_default := ?all)"
  have run: "construct_datasets listdir dirs h = Inr (?dss, ?h)"
    using construct_datasets_default[OF assms(1), of h] assms(2) by simp
  have a: "list_all (\<lambda>ds. files ds = files_list_default \<and> items ds ?h = ?all) ?dss"
    by (simp add: list_all_iff items_def)
  have b: "list_all (\<lambda>ds. len ds ?h = length dirs * n) ?dss"
    if "list_all (\<lambda>d. length (names_of d) = n) dirs"
  proof -
    have "list_all (\<lambda>d. length (dir_entries d (names_of d)) = n) dirs"
      using that by (simp add: length_dir_entries)
    then have "length ?all = length dirs * n"
      by (rule length_concat_const)
    then show ?thesis
      by (simp add: list_all_iff len_def)
  qed
  show ?thesis
    using run a b by (intro exI[of _ ?dss] exI[of _ ?h]) simp
qed

theorem list_files_shared_default_witness:
  "\<exists>dss h'. construct_datasets demo_listdir [''data'', ''data'', ''data''] (\<lambda>a. []) = Inr (dss, h') \<and>
     length dss = length [''data'', ''data'', ''data''] \<and>
     list_all (\<lambda>ds. files ds = files_list_default \<and>
                 items ds h' =
                   concat (map (\<lambda>d. dir_entries d [''t_0.tif'', ''t_1.tif''])
                             [''data'', ''data'', ''data''])) dss \<and>
     list_all (\<lambda>ds. len ds h' = length [''data'', ''data'', ''data''] * 2) dss"
proof -
  have l: "\<forall>d \<in> set [''data'', ''data'', ''data''].
             demo_listdir (path_join d ''images'') = Inr ((\<lambda>d. [''t_0.tif'', ''t_1.tif'']) d)"
    by (simp add: demo_listdir_def path_join_def)
  have n: "list_all (\<lambda>d. length ((\<lambda>d. [''t_0.tif'', ''t_1.tif'']) d) = 2)
             [''data'', ''data'', ''data'']"
    by simp
  have e: "(\<lambda>a. []) files_list_default = ([] :: file_entry list)"
    by simp
  from list_files_shared_default[OF l e, of 2] n show ?thesis
    by blast
qed

text \<open>
  C10 asks that every random flip acts on the same spatial axes of the image (C, H, W) and of
  the mask (H, W). In the code, \<^verbatim>\<open>fliplr\<close> reverses dimension 1 of both tensors: the rows
  (H) of the image and the columns (W) of the mask; \<^verbatim>\<open>flipud\<close> reverses dimension 0: the
  channels (C) of the image and the rows (H) of the mask. On an image whose channel 0 equals
  the mask, a left-right flip alone, and an up-down flip alone, give an image and a mask that
  no longer agree.
\<close>

theorem getitem_flips_misaligned:
  "getitem [[[1, 2], [3, 4 :: int]]] [[1, 2], [3, 4 :: int]] True (9 / 10, 0, 0, 0, 0) =
     ([[[3, 4], [1, 2]]], [[2, 1], [4, 3]]) \<and>
   getitem [[[1, 2], [3, 4 :: int]], [[5, 6], [7, 8]]] [[1, 2], [3, 4 :: int]] True
       (0, 9 / 10, 0, 0, 0) =
     ([[[5, 6], [7, 8]], [[1, 2], [3, 4]]], [[3, 4], [1, 2]])"
  by (simp add: getitem_def fliplr_def flipud_def)

text \<open>
  The rotations name the axes of each tensor (\<^verbatim>\<open>dims=[1, 2]\<close> and \<^verbatim>\<open>dims=[0, 1]\<close>):
  without a flip, every channel of the image and the mask undergo the same rotation.
\<close>

lemma getitem_rotations_aligned:
  "\<not> u1 > 1 / 2 \<Longrightarrow> \<not> u2 > 1 / 2 \<Longrightarrow>
   getitem x y True (u1, u2, u3, u4, u5) =
     (map ((if u5 > 1 / 2 then rot90 3 else id) \<circ> (if u4 > 1 / 2 then rot90 2 else id) \<circ>
           (if u3 > 1 / 2 then rot90 1 else id)) x,
      ((if u5 > 1 / 2 then rot90 3 else id) \<circ> (if u4 > 1 / 2 then rot90 2 else id) \<circ>
           (if u3 > 1 / 2 then rot90 1 else id)) y)"
  by (simp add: getitem_def rot90_chw_def)


section \<open>Properties of the prediction step\<close>

subsection \<open>The checkpoint that is loaded\<close>

lemma fold_max_key:
  "fold (\<lambda>y best. if k y > k best then y else best) xs b \<in> set (b # xs) \<and>
   k b \<le> k (fold (\<lambda>y best. if k y > k best then y else best) xs b) \<and>
   (\<forall>y \<in> set xs. k y \<le> k (fold (\<lambda>y best. if k y > k best then y else best) xs b))"
  for k :: "'a \<Rightarrow> 'k::linorder"
proof (induction xs arbitrary: b)
  case Nil
  then show ?case by simp
next
  case (Cons x xs)
  let ?b = "if k x > k b then x else b"
  have "k b \<le> k ?b" "k x \<le> k ?b"
    by auto
  with Cons.IH[of ?b] show ?case
    by (auto intro: order_trans)
qed

lemma py_max_key_greatest:
  "py_max_key k xs = Inr m \<Longrightarrow> m \<in> set xs \<and> (\<forall>y \<in> set xs. k y \<le> k m)"
  for k :: "'a \<Rightarrow> 'k::linorder"
  using fold_max_key[of k "tl xs" "hd xs"] by (cases xs) auto

lemma py_max_key_defined: "xs \<noteq> [] \<Longrightarrow> \<exists>m. py_max_key k xs = Inr m"
  by (cases xs) simp_all

text \<open>
  C7, as the code has it. When no model file is designated, \<^verbatim>\<open>predict\<close> takes the
  \<^verbatim>\<open>*.pt\<close> files of the model directory and selects one whose \<^verbatim>\<open>os.path.getctime\<close> is
  the greatest: the time of the last change of the file's metadata, not of its contents. With
  no such file, \<^verbatim>\<open>max\<close> raises \<^verbatim>\<open>ValueError\<close>.
\<close>

theorem select_model_latest_ctime:
  assumes "model_filename cfg = None"
    and "models_list = glob ext (fs w) (path_join (model_dir cfg) ''*.pt'')"
  shows "case select_model cfg ext w of
           Inl e \<Rightarrow> e = ValueError \<and> models_list = []
         | Inr m \<Rightarrow> m \<in> set models_list \<and>
                    (\<forall>m' \<in> set models_list. getctime ext m' \<le> getctime ext m)"
proof -
  have s: "select_model cfg ext w = py_max_key (getctime ext) models_list"
    using assms by (simp add: select_model_def)
  show ?thesis
  proof (cases models_list)
    case Nil
    then show ?thesis
      by (simp add: s)
  next
    case (Cons x xs)
    then obtain m where m: "py_max_key (getctime ext) models_list = Inr m"
      using py_max_key_defined[of models_list "getctime ext"] by auto
    from py_max_key_greatest[OF m] show ?thesis
      by (simp add: s m)
  qed
qed

theorem select_model_latest_ctime_witness:
  "model_filename demo_cfg = None \<and>
   [''models/old.pt'', ''models/new.pt''] =
     glob demo_ext (fs demo_world) (path_join (model_dir demo_cfg) ''*.pt'') \<and>
   select_model demo_cfg demo_ext demo_world = Inr ''models/old.pt'' \<and>
   ''models/old.pt'' \<in> set [''models/old.pt'', ''models/new.pt''] \<and>
   list_all (\<lambda>m'. getctime demo_ext m' \<le> getctime demo_ext ''models/old.pt'')
     [''models/old.pt'', ''models/new.pt'']"
proof -
  have n: "model_filename demo_cfg = None"
    by (simp add: demo_cfg_def)
  have g: "[''models/old.pt'', ''models/new.pt''] =
             glob demo_ext (fs demo_world) (path_join (model_dir demo_cfg) ''*.pt'')"
    by (simp add: demo_cfg_def demo_ext_def demo_world_def path_join_def)
  have s: "select_model demo_cfg demo_ext demo_world = Inr ''models/old.pt''"
    by (simp add: select_model_def getctime_def demo_cfg_def demo_ext_def
        demo_world_def path_join_def)
  from select_model_latest_ctime[OF n g] n g s show ?thesis
    unfolding s list_all_iff by simp
qed

text \<open>
  Two checkpoints, the older of which had its metadata changed last: it is the one selected,
  although the other has the later modification time.
\<close>

theorem select_model_mtime_counterexample:
  "select_model demo_cfg demo_ext demo_world = Inr ''models/old.pt'' \<and>
   glob demo_ext (fs demo_world) (path_join (model_dir demo_cfg) ''*.pt'') =
     [''models/old.pt'', ''models/new.pt''] \<and>
   getmtime demo_ext ''models/old.pt'' < getmtime demo_ext ''models/new.pt''"
  by (simp add: select_model_def getctime_def getmtime_def demo_cfg_def demo_ext_def
      demo_world_def path_join_def)

subsection \<open>The LOADED step\<close>

text \<open>
  C2 asks that the clip to \<open>[data_min, data_max]\<close> is applied to the raw values, before
  the division by the int16 maximum. \<^verbatim>\<open>_predict\<close> divides first and clips the quotient:
  with the bounds 0 and 10000, the raw value 20000 comes out as 20000 / 32767 and the clip
  changes nothing. The training path clips first: the same raw value reaches the network as
  10000 / 32767.
\<close>

theorem load_stage_normalizes_before_clipping:
  "load_stage demo_cfg [[[20000]]] = [[[20000 / 32767]]] \<and>
   tile_iinfo_max (data_min demo_cfg) (data_max demo_cfg) = Some 32767 \<and>
   open_image_values 32767
       (preprocess_values (data_min demo_cfg) (data_max demo_cfg) [[[20000]]]) =
     [[[10000 / 32767]]]"
  by (simp add: load_stage_def preprocess_values_def open_image_values_def tile_iinfo_max_def
      demo_cfg_def
      astype_int16_def moveaxis_0_last_def normalize_int16_def modify_pixel_extremity_def
      np_clip_def iinfo_int16_max_def)

subsection \<open>Resuming\<close>

lemma raster_name_tif:
  assumes "CHR ''/'' \<notin> set stem"
  shows "raster_name cfg (dir @ ''/'' @ stem @ ''.tif'') =
           path_join (inference_output_dir cfg) (stem @ ''_pred.tif'')"
proof -
  have "takeWhile (\<lambda>c. c \<noteq> CHR ''/'') (rev stem @ CHR ''/'' # rev dir) = rev stem"
    using assms by (subst takeWhile_append2) auto
  then show ?thesis
    by (simp add: raster_name_def last_component_def)
qed

text \<open>
  C3. When the prediction raster of an input file already exists, \<^verbatim>\<open>_predict\<close> logs the
  file name and the message that the raster is already predicted, and does nothing else: the
  files are unchanged and no collaborator is called, so no raster is read and no inference
  is run. For an input \<open>dir/stem.tif\<close> the raster is \<open>stem_pred.tif\<close> in the inference
  output directory.
\<close>

theorem predict_one_skips_existing:
  assumes "fs w (raster_name cfg filename) = Some out"
  shows "predict_one cfg ext model filename w =
           Inr (w\<lparr>logged := logged w @ [Info (''File: '' @ filename),
                                       Info (raster_name cfg filename @ '' already predicted.'')]\<rparr>) \<and>
         (CHR ''/'' \<notin> set stem \<longrightarrow>
            raster_name cfg (dir @ ''/'' @ stem @ ''.tif'') =
              path_join (inference_output_dir cfg) (stem @ ''_pred.tif''))"
  using assms raster_name_tif[of stem cfg dir]
  by (simp add: predict_one_def Let_def isfile_def info_def)

theorem predict_one_skips_existing_witness:
  "fs (demo_world\<lparr>fs := (fs demo_world)(''out/a_pred.tif'' \<mapsto> Garbage)\<rparr>)
      (raster_name demo_cfg ''in/a.tif'') = Some Garbage \<and>
   predict_one demo_cfg demo_ext () ''in/a.tif''
      (demo_world\<lparr>fs := (fs demo_world)(''out/a_pred.tif'' \<mapsto> Garbage)\<rparr>) =
     Inr (demo_world\<lparr>fs := (fs demo_world)(''out/a_pred.tif'' \<mapsto> Garbage),
                     logged := [Info ''File: in/a.tif'', Info ''out/a_pred.tif already predicted.'']\<rparr>) \<and>
   CHR ''/'' \<notin> set ''a'' \<and>
   raster_name demo_cfg (''in'' @ ''/'' @ ''a'' @ ''.tif'') = ''out/a_pred.tif''"
proof -
  let ?w = "demo_world\<lparr>fs := (fs demo_world)(''out/a_pred.tif'' \<mapsto> Garbage)\<rparr>"
  have rn: "raster_name demo_cfg ''in/a.tif'' = ''out/a_pred.tif''"
    by (simp add: raster_name_def demo_cfg_def last_component_def path_join_def)
  have ex: "fs ?w (raster_name demo_cfg ''in/a.tif'') = Some Garbage"
    by (simp add: rn)
  have lg: "logged ?w = []"
    by (simp add: demo_world_def)
  have pj: "path_join (inference_output_dir demo_cfg) (''a'' @ ''_pred.tif'') = ''out/a_pred.tif''"
    by (simp add: demo_cfg_def path_join_def)
  note t = predict_one_skips_existing[OF ex, of demo_ext "()" "''a''" "''in''", unfolded rn lg pj]
  show ?thesis
    using t ex rn by simp
qed

subsection \<open>The arguments of the tiler\<close>

lemma slicer_args_append: "slicer_args (cs @ ds) = slicer_args cs @ slicer_args ds"
  by (induction cs rule: slicer_args.induct) simp_all

lemma arr_to_tif_effects:
  "logged (world_of (arr_to_tif ext raster_f segments out_tif ndval w)) = logged w \<and>
   slicer_args (calls (world_of (arr_to_tif ext raster_f segments out_tif ndval w))) =
     slicer_args (calls w)"
  by (cases segments)
     (simp_all add: arr_to_tif_def Let_def world_of_def call_def slicer_args_append
        split: sum.splits prod.splits)

lemma arr_to_tif_calls:
  "\<exists>more. calls (world_of (arr_to_tif ext raster_f segments out_tif ndval w)) = calls w @ more"
  by (cases segments)
     (simp_all add: arr_to_tif_def Let_def world_of_def call_def
        split: sum.splits prod.splits)

lemma predict_one_slicer_args:
  "slicer_args (calls (world_of (predict_one cfg ext model filename w))) =
     slicer_args (calls w) \<or>
   slicer_args (calls (world_of (predict_one cfg ext model filename w))) =
     slicer_args (calls w) @ [((tile_size cfg, tile_size cfg), (overlap cfg, overlap cfg))]"
proof -
  have a: "slicer_args (calls (world_of r)) = slicer_args (calls v)"
    if "r = arr_to_tif ext raster_f segments out_tif ndval v"
    for r raster_f segments out_tif ndval and v :: "'a world"
    using that arr_to_tif_effects[of ext raster_f segments out_tif ndval v] by simp
  show ?thesis
    unfolding predict_one_def Let_def
    by (auto simp: world_of_def call_def info_def slicer_args_append
          split: sum.splits prod.splits dest!: a[OF sym])
qed

lemma predict_one_success_slicer_args:
  assumes "predict_one cfg ext model filename w = Inr w'"
    and "fs w (raster_name cfg filename) = None"
  shows "slicer_args (calls w') =
           slicer_args (calls w) @ [((tile_size cfg, tile_size cfg), (overlap cfg, overlap cfg))]"
proof -
  have a: "slicer_args (calls v') = slicer_args (calls v)"
    if "arr_to_tif ext raster_f segments out_tif ndval v = Inr v'"
    for raster_f segments out_tif ndval and v v' :: "'a world"
    using arr_to_tif_effects[of ext raster_f segments out_tif ndval v] that
    by (simp add: world_of_def)
  show ?thesis
    using assms unfolding predict_one_def Let_def
    by (auto simp: call_def info_def isfile_def slicer_args_append
          split: sum.splits prod.splits if_splits dest!: a)
qed

text \<open>
  Once the raster is read and its bands selected, nothing stands between the configuration
  and the tiler: the constructor is called, and its answer decides how the run goes on.
\<close>

lemma predict_one_reaches_tiler:
  assumes "fs w (raster_name cfg filename) = None"
    and "read_file (open_rasterio ext) w filename = Inr bands"
    and "modify_bands ext bands = Inr chw"
  shows "predict_one cfg ext model filename w =
           (let img = load_stage cfg chw;
                w4 = w\<lparr>logged := logged w @ [Info (''File: '' @ filename),
                                             InfoTensorShape (shape3 img)],
                       calls := calls w @
                         [CallOpenRasterio filename,
                          CallImageSlicer (shape3 img) (tile_size cfg, tile_size cfg)
                            (overlap cfg, overlap cfg)]\<rparr>
            in case image_slicer ext (shape3 img) (tile_size cfg, tile_size cfg)
                      (overlap cfg, overlap cfg) of
                 Inl e \<Rightarrow> Inl (e, w4)
               | Inr tiler \<Rightarrow>
                   (let w5 = call (CallModel filename) w4
                    in case predict_tiles ext model tiler img (pred_batch_size cfg) of
                         Inl e \<Rightarrow> Inl (e, w5)
                       | Inr merged_mask \<Rightarrow>
                           (case arr_to_tif ext filename
                                   (SegArray (map (map uint) (median_filter ext merged_mask 25)))
                                   (raster_name cfg filename) (- 9999) w5 of
                              Inl ew \<Rightarrow> Inl ew
                            | Inr w6 \<Rightarrow>
                                Inr (info (Info (''Saved Filename: '' @ raster_name cfg filename))
                                       w6))))"
  using assms
  by (auto simp: predict_one_def Let_def isfile_def read_file_def info_def call_def
        split: sum.splits)


lemma predict_one_tiler_decides:
  assumes "fs w (raster_name cfg filename) = None"
    and "read_file (open_rasterio ext) w filename = Inr bands"
    and "modify_bands ext bands = Inr chw"
  shows "slicer_args (calls (world_of (predict_one cfg ext model filename w))) =
           slicer_args (calls w) @
             [((tile_size cfg, tile_size cfg), (overlap cfg, overlap cfg))]"
    and "image_slicer ext (shape3 (load_stage cfg chw)) (tile_size cfg, tile_size cfg)
             (overlap cfg, overlap cfg) = Inl e \<Longrightarrow>
         predict_one cfg ext model filename w =
           Inl (e, w\<lparr>logged := logged w @ [Info (''File: '' @ filename),
                                              InfoTensorShape (shape3 (load_stage cfg chw))],
                      calls := calls w @
                        [CallOpenRasterio filename,
                         CallImageSlicer (shape3 (load_stage cfg chw))
                           (tile_size cfg, tile_size cfg) (overlap cfg, overlap cfg)]\<rparr>)"
    and "image_slicer ext (shape3 (load_stage cfg chw)) (tile_size cfg, tile_size cfg)
             (overlap cfg, overlap cfg) = Inr tiler \<Longrightarrow>
         \<exists>more. calls (world_of (predict_one cfg ext model filename w)) =
           calls w @
             [CallOpenRasterio filename,
              CallImageSlicer (shape3 (load_stage cfg chw))
                (tile_size cfg, tile_size cfg) (overlap cfg, overlap cfg),
              CallModel filename] @ more"
proof -
  note p = predict_one_reaches_tiler[OF assms, of model]
  have a: "slicer_args (calls (world_of (arr_to_tif ext raster_f segments out_tif ndval v))) =
             slicer_args (calls v)"
    for raster_f segments out_tif ndval and v :: "'a world"
    using arr_to_tif_effects[of ext raster_f segments out_tif ndval v] by simp
  have w: "world_of (Inl ew) = snd ew" "world_of (Inr v) = v" for ew and v :: "'a world"
    by (simp_all add: world_of_def split: prod.splits)
  show "slicer_args (calls (world_of (predict_one cfg ext model filename w))) =
           slicer_args (calls w) @
             [((tile_size cfg, tile_size cfg), (overlap cfg, overlap cfg))]"
  proof (cases "image_slicer ext (shape3 (load_stage cfg chw)) (tile_size cfg, tile_size cfg)
                  (overlap cfg, overlap cfg)")
    case (Inl e)
    then show ?thesis
      by (simp add: p Let_def w slicer_args_append)
  next
    case (Inr tiler)
    show ?thesis
    proof (cases "predict_tiles ext model tiler (load_stage cfg chw) (pred_batch_size cfg)")
      case (Inl e)
      then show ?thesis
        using Inr by (simp add: p Let_def w call_def slicer_args_append)
    next
      case (Inr merged_mask)
      let ?v = "call (CallModel filename)
                  (w\<lparr>logged := logged w @ [Info (''File: '' @ filename),
                                            InfoTensorShape (shape3 (load_stage cfg chw))],
                     calls := calls w @
                       [CallOpenRasterio filename,
                        CallImageSlicer (shape3 (load_stage cfg chw))
                          (tile_size cfg, tile_size cfg) (overlap cfg, overlap cfg)]\<rparr>)"
      let ?r = "arr_to_tif ext filename
                  (SegArray (map (map uint) (median_filter ext merged_mask 25)))
                  (raster_name cfg filename) (- 9999) ?v"
      have "slicer_args (calls (world_of ?r)) = slicer_args (calls ?v)"
        by (rule a)
      moreover have "world_of (predict_one cfg ext model filename w) = world_of ?r \<or>
                     (\<exists>r. world_of (predict_one cfg ext model filename w) =
                            info r (world_of ?r))"
        using \<open>image_slicer _ _ _ _ = Inr tiler\<close> Inr
        by (cases ?r) (auto simp: p Let_def world_of_def)
      ultimately show ?thesis
        by (auto simp: info_def call_def slicer_args_append)
    qed
  qed
  show "predict_one cfg ext model filename w =
           Inl (e, w\<lparr>logged := logged w @ [Info (''File: '' @ filename),
                                              InfoTensorShape (shape3 (load_stage cfg chw))],
                      calls := calls w @
                        [CallOpenRasterio filename,
                         CallImageSlicer (shape3 (load_stage cfg chw))
                           (tile_size cfg, tile_size cfg) (overlap cfg, overlap cfg)]\<rparr>)"
    if "image_slicer ext (shape3 (load_stage cfg chw)) (tile_size cfg, tile_size cfg)
             (overlap cfg, overlap cfg) = Inl e"
    using that by (simp add: p Let_def)
  show "\<exists>more. calls (world_of (predict_one cfg ext model filename w)) =
           calls w @
             [CallOpenRasterio filename,
              CallImageSlicer (shape3 (load_stage cfg chw))
                (tile_size cfg, tile_size cfg) (overlap cfg, overlap cfg),
              CallModel filename] @ more"
    if t: "image_slicer ext (shape3 (load_stage cfg chw)) (tile_size cfg, tile_size cfg)
             (overlap cfg, overlap cfg) = Inr tiler"
  proof (cases "predict_tiles ext model tiler (load_stage cfg chw) (pred_batch_size cfg)")
    case (Inl e)
    then show ?thesis
      using t by (simp add: p Let_def w call_def)
  next
    case (Inr merged_mask)
    let ?v = "call (CallModel filename)
                (w\<lparr>logged := logged w @ [Info (''File: '' @ filename),
                                          InfoTensorShape (shape3 (load_stage cfg chw))],
                   calls := calls w @
                     [CallOpenRasterio filename,
                      CallImageSlicer (shape3 (load_stage cfg chw))
                        (tile_size cfg, tile_size cfg) (overlap cfg, overlap cfg)]\<rparr>)"
    let ?r = "arr_to_tif ext filename
                (SegArray (map (map uint) (median_filter ext merged_mask 25)))
                (raster_name cfg filename) (- 9999) ?v"
    obtain more where m: "calls (world_of ?r) = calls ?v @ more"
      using arr_to_tif_calls[of ext filename _ "raster_name cfg filename" "- 9999" ?v] by blast
    have "world_of (predict_one cfg ext model filename w) = world_of ?r \<or>
          (\<exists>r. world_of (predict_one cfg ext model filename w) = info r (world_of ?r))"
      using t Inr by (cases ?r) (auto simp: p Let_def world_of_def)
    then have "calls (world_of (predict_one cfg ext model filename w)) = calls ?v @ more"
      using m by (auto simp: info_def)
    then show ?thesis
      by (simp add: call_def)
  qed
qed

text \<open>
  C1, as the code has it. \<^verbatim>\<open>_predict\<close> constructs at most one tiler, with the tile size
  \<open>(tile_size, tile_size)\<close> and the tile step \<open>(overlap, overlap)\<close>: the configured
  \<open>overlap\<close> is itself the stride between tile origins. A run that writes a new prediction
  constructs exactly one. The two values are passed unchecked: once the raster is read and
  its bands are selected, the tiler is constructed with them whatever the relation between
  \<open>overlap\<close> and \<open>tile_size\<close> is; when the constructor raises, its exception ends the run
  there, and when it answers, the run goes on to the model.
\<close>

theorem tiler_step_is_overlap:
  "(slicer_args (calls (world_of (predict_one cfg ext model filename w))) =
      slicer_args (calls w) \<or>
    slicer_args (calls (world_of (predict_one cfg ext model filename w))) =
      slicer_args (calls w) @ [((tile_size cfg, tile_size cfg), (overlap cfg, overlap cfg))]) \<and>
   (predict_one cfg ext model filename w = Inr w' \<and> fs w (raster_name cfg filename) = None \<longrightarrow>
      slicer_args (calls w') =
        slicer_args (calls w) @ [((tile_size cfg, tile_size cfg), (overlap cfg, overlap cfg))]) \<and>
   (fs w (raster_name cfg filename) = None \<and>
    read_file (open_rasterio ext) w filename = Inr bands \<and> modify_bands ext bands = Inr chw \<longrightarrow>
      slicer_args (calls (world_of (predict_one cfg ext model filename w))) =
        slicer_args (calls w) @
          [((tile_size cfg, tile_size cfg), (overlap cfg, overlap cfg))] \<and>
      (\<forall>e. image_slicer ext (shape3 (load_stage cfg chw)) (tile_size cfg, tile_size cfg)
               (overlap cfg, overlap cfg) = Inl e \<longrightarrow>
           predict_one cfg ext model filename w =
             Inl (e, w\<lparr>logged := logged w @ [Info (''File: '' @ filename),
                                                InfoTensorShape (shape3 (load_stage cfg chw))],
                        calls := calls w @
                          [CallOpenRasterio filename,
                           CallImageSlicer (shape3 (load_stage cfg chw))
                             (tile_size cfg, tile_size cfg) (overlap cfg, overlap cfg)]\<rparr>)) \<and>
      (\<forall>tiler. image_slicer ext (shape3 (load_stage cfg chw)) (tile_size cfg, tile_size cfg)
                   (overlap cfg, overlap cfg) = Inr tiler \<longrightarrow>
           (\<exists>more. calls (world_of (predict_one cfg ext model filename w)) =
              calls w @
                [CallOpenRasterio filename,
                 CallImageSlicer (shape3 (load_stage cfg chw))
                   (tile_size cfg, tile_size cfg) (overlap cfg, overlap cfg),
                 CallModel filename] @ more)))"
  using predict_one_slicer_args[of cfg ext model filename w]
    predict_one_success_slicer_args[of cfg ext model filename w w']
    predict_one_tiler_decides[where w = w and cfg = cfg and filename = filename and ext = ext
      and bands = bands and chw = chw and model = model]
  by blast

lemma demo_shape:
  "shape3 (load_stage demo_cfg [[[20000, 5]]]) = (1, 2, 1)"
  "shape3 (load_stage demo_wide_cfg [[[20000, 5]]]) = (1, 2, 1)"
  by (simp_all add: load_stage_def astype_int16_def moveaxis_0_last_def normalize_int16_def
      modify_pixel_extremity_def shape3_def)

lemma demo_predict_a:
  "predict_one demo_cfg demo_ext () ''in/a.tif'' demo_world =
     Inr (demo_world
          \<lparr>fs := (fs demo_world)
                  (''out/a_pred.tif'' \<mapsto>
                     PredTif (demo_profile\<lparr>count := 1, dtype := ''int16''\<rparr>) [[1, - 9999]]),
           logged := [Info ''File: in/a.tif'', InfoTensorShape (1, 2, 1),
                      Info ''Saved Filename: out/a_pred.tif''],
           calls := [CallOpenRasterio ''in/a.tif'',
                     CallImageSlicer (1, 2, 1) (256, 256) (64, 64), CallModel ''in/a.tif'',
                     CallRioOpen ''in/a.tif'', CallRioWrite ''out/a_pred.tif'']\<rparr>)"
  by (simp add: predict_one_def Let_def demo_cfg_def demo_ext_def demo_world_def isfile_def
      info_def call_def read_file_def raster_name_def last_component_def path_join_def
      load_stage_def astype_int16_def moveaxis_0_last_def normalize_int16_def
      modify_pixel_extremity_def shape3_def arr_to_tif_def)

lemma demo_predict_wide:
  "predict_one demo_wide_cfg demo_ext () ''in/a.tif'' demo_world =
     Inl (ValueError,
          demo_world
          \<lparr>logged := [Info ''File: in/a.tif'', InfoTensorShape (1, 2, 1)],
           calls := [CallOpenRasterio ''in/a.tif'',
                     CallImageSlicer (1, 2, 1) (256, 256) (300, 300)]\<rparr>)"
  by (simp add: predict_one_def Let_def demo_wide_cfg_def demo_cfg_def demo_ext_def
      demo_world_def isfile_def
      info_def call_def read_file_def raster_name_def last_component_def path_join_def
      load_stage_def astype_int16_def moveaxis_0_last_def normalize_int16_def
      modify_pixel_extremity_def shape3_def)

theorem tiler_step_is_overlap_witness:
  "predict_one demo_cfg demo_ext () ''in/a.tif'' demo_world =
     Inr (world_of (predict_one demo_cfg demo_ext () ''in/a.tif'' demo_world)) \<and>
   fs demo_world (raster_name demo_cfg ''in/a.tif'') = None \<and>
   slicer_args (calls (world_of (predict_one demo_cfg demo_ext () ''in/a.tif'' demo_world))) =
     slicer_args (calls demo_world) @ [((256, 256), (64, 64))] \<and>
   fs demo_world (raster_name demo_wide_cfg ''in/a.tif'') = None \<and>
   read_file (open_rasterio demo_ext) demo_world ''in/a.tif'' = Inr [[[20000, 5]]] \<and>
   modify_bands demo_ext [[[20000, 5]]] = Inr [[[20000, 5]]] \<and>
   image_slicer demo_ext (1, 2, 1) (256, 256) (300, 300) = Inl ValueError \<and>
   slicer_args (calls (world_of (predict_one demo_wide_cfg demo_ext () ''in/a.tif'' demo_world))) =
     slicer_args (calls demo_world) @ [((256, 256), (300, 300))] \<and>
   predict_one demo_wide_cfg demo_ext () ''in/a.tif'' demo_world =
     Inl (ValueError,
          demo_world\<lparr>logged := logged demo_world @
                                  [Info (''File: '' @ ''in/a.tif''), InfoTensorShape (1, 2, 1)],
                      calls := calls demo_world @
                                 [CallOpenRasterio ''in/a.tif'',
                                  CallImageSlicer (1, 2, 1) (256, 256) (300, 300)]\<rparr>) \<and>
   image_slicer demo_ext (1, 2, 1) (256, 256) (64, 64) = Inr ((256, 256), (64, 64)) \<and>
   (\<exists>more. calls (world_of (predict_one demo_cfg demo_ext () ''in/a.tif'' demo_world)) =
      calls demo_world @
        [CallOpenRasterio ''in/a.tif'', CallImageSlicer (1, 2, 1) (256, 256) (64, 64),
         CallModel ''in/a.tif''] @ more)"
proof -
  let ?W = "world_of (predict_one demo_cfg demo_ext () ''in/a.tif'' demo_world)"
  have r: "predict_one demo_cfg demo_ext () ''in/a.tif'' demo_world = Inr ?W"
    by (simp add: demo_predict_a world_of_def)
  have n: "fs demo_world (raster_name demo_cfg ''in/a.tif'') = None"
    "fs demo_world (raster_name demo_wide_cfg ''in/a.tif'') = None"
    by (simp_all add: raster_name_def demo_wide_cfg_def demo_cfg_def last_component_def
        path_join_def demo_world_def)
  have c: "tile_size demo_cfg = 256" "overlap demo_cfg = 64"
    "tile_size demo_wide_cfg = 256" "overlap demo_wide_cfg = 300"
    by (simp_all add: demo_wide_cfg_def demo_cfg_def)
  have b: "read_file (open_rasterio demo_ext) demo_world ''in/a.tif'' = Inr [[[20000, 5]]]"
    by (simp add: read_file_def demo_ext_def demo_world_def)
  have m: "modify_bands demo_ext [[[20000, 5]]] = Inr [[[20000, 5]]]"
    by (simp add: demo_ext_def)
  have rej: "image_slicer demo_ext (1, 2, 1) (256, 256) (300, 300) = Inl ValueError"
    and acc: "image_slicer demo_ext (1, 2, 1) (256, 256) (64, 64) = Inr ((256, 256), (64, 64))"
    by (simp_all add: demo_ext_def)
  note t1 = tiler_step_is_overlap[of demo_cfg demo_ext "()" "''in/a.tif''" demo_world ?W
      "[[[20000, 5]]]" "[[[20000, 5]]]", unfolded c demo_shape]
  note t2 = tiler_step_is_overlap[of demo_wide_cfg demo_ext "()" "''in/a.tif''" demo_world ?W
      "[[[20000, 5]]]" "[[[20000, 5]]]", unfolded c demo_shape]
  have s1: "slicer_args (calls ?W) = slicer_args (calls demo_world) @ [((256, 256), (64, 64))]"
    using t1 r n(1) by blast
  have s2: "slicer_args (calls (world_of (predict_one demo_wide_cfg demo_ext () ''in/a.tif''
                                            demo_world))) =
              slicer_args (calls demo_world) @ [((256, 256), (300, 300))]"
    using t2 n(2) b m by blast
  have s3: "predict_one demo_wide_cfg demo_ext () ''in/a.tif'' demo_world =
     Inl (ValueError,
          demo_world\<lparr>logged := logged demo_world @
                                  [Info (''File: '' @ ''in/a.tif''), InfoTensorShape (1, 2, 1)],
                      calls := calls demo_world @
                                 [CallOpenRasterio ''in/a.tif'',
                                  CallImageSlicer (1, 2, 1) (256, 256) (300, 300)]\<rparr>)"
    using t2 n(2) b m rej by blast
  have s4: "\<exists>more. calls ?W =
      calls demo_world @
        [CallOpenRasterio ''in/a.tif'', CallImageSlicer (1, 2, 1) (256, 256) (64, 64),
         CallModel ''in/a.tif''] @ more"
    using t1 n(1) b m acc by blast
  show ?thesis
    by (rule conjI[OF r conjI[OF n(1) conjI[OF s1 conjI[OF n(2) conjI[OF b conjI[OF m
          conjI[OF rej conjI[OF s2 conjI[OF s3 conjI[OF acc s4]]]]]]]]]])
qed

text \<open>
  With a tile size of 256 and an overlap of 64 the step passed is 64, not 256 - 64; with an
  overlap of 300 the step passed is 300, above the tile size.
\<close>

theorem tiler_step_counterexample:
  "map (\<lambda>(tsize, tstep). tstep = (fst tsize - overlap demo_cfg, snd tsize - overlap demo_cfg))
     (slicer_args (calls (world_of (predict_one demo_cfg demo_ext () ''in/a.tif'' demo_world)))) =
     [False] \<and>
   map (\<lambda>(tsize, tstep). fst tstep \<le> fst tsize \<and> snd tstep \<le> snd tsize)
     (slicer_args (calls (world_of (predict_one demo_wide_cfg demo_ext () ''in/a.tif''
                                      demo_world)))) =
     [False]"
  unfolding demo_predict_a demo_predict_wide by (simp add: world_of_def demo_cfg_def)

subsection \<open>A failure in a batch\<close>









text \<open>
  A second call on the object that a first call has left: \<^verbatim>\<open>data_predict\<close> is a list by
  then.
\<close>

lemma predict_twice:
  "predict (demo_cfg\<lparr>model_filename := Some ''models/old.pt'',
                      data_predict := Globbed [''in/b.tif'', ''in/a.tif'']\<rparr>)
       demo_ext demo_world =
     Inl (TypeError,
          demo_cfg\<lparr>model_filename := Some ''models/old.pt'',
                    data_predict := Globbed [''in/b.tif'', ''in/a.tif'']\<rparr>,
          demo_world\<lparr>logged := [Info ''Starting Prediction Step...'',
                                 Info ''Loading models/old.pt'', Info ''Loaded model...''],
                      calls := [CallTorchLoad ''models/old.pt'']\<rparr>)"
  by (simp add: predict_def select_model_def Let_def demo_cfg_def demo_ext_def demo_world_def
      info_def call_def read_file_def)

subsection \<open>No-data pixels in the output\<close>

lemma uint_ucast_mask: "uint (ucast (m :: 8 word) :: 16 word) = uint m"
  by (simp add: uint_up_ucast is_up)

lemma ucast_mask_not_sentinel: "(ucast (m :: 8 word) :: 16 word) \<noteq> - 9999"
proof
  assume "(ucast m :: 16 word) = - 9999"
  then have "uint (ucast m :: 16 word) = uint (- 9999 :: 16 word)"
    by simp
  moreover have "uint m < 256"
    using uint_bounded[of m] by simp
  ultimately show False
    by (simp add: uint_ucast_mask)
qed

lemma ucast_mask_zero: "((ucast (m :: 8 word) :: 16 word) = 0) = (m = 0)"
proof -
  have "((ucast m :: 16 word) = 0) = (uint (ucast m :: 16 word) = 0)"
    by (simp add: uint_0_iff)
  also have "\<dots> = (uint m = 0)"
    by (simp only: uint_ucast_mask)
  also have "\<dots> = (m = 0)"
    by (simp add: uint_0_iff)
  finally show ?thesis .
qed

lemma sint_class_value: "sint (ucast (p :: 8 word) :: 16 word) = uint p"
proof -
  have lo: "- (2 ^ 15) \<le> uint p"
    by (rule order_trans[of _ 0]) simp_all
  have hi: "uint p < 2 ^ 15"
    using uint_bounded[of p] by simp
  have "signed_take_bit 15 (uint p) = uint p"
    using lo hi by (rule signed_take_bit_int_eq_self)
  then show ?thesis
    by (simp add: sint_uint uint_ucast_mask)
qed

lemma out_pixel:
  "sint (let n = (if (ucast (m :: 8 word) :: 16 word) = 0 then - 9999 else ucast m)
         in if n = - 9999 then n else (ucast (p :: 8 word) :: 16 word)) =
   (if m = 0 then - 9999 else uint p)"
proof (cases "m = 0")
  case True
  then show ?thesis by simp
next
  case False
  then show ?thesis
    using ucast_mask_not_sentinel[of m] sint_class_value[of p]
    by (simp add: ucast_mask_zero Let_def)
qed


lemma out_row:
  "map sint (map2 (\<lambda>n s. if n = - 9999 then n else s)
               (map (\<lambda>v. if v = 0 then - 9999 else v) (map ucast (ms :: 8 word list)))
               (map word_of_int (map uint (ps :: 8 word list))) :: 16 word list) =
   map2 (\<lambda>m p. if m = 0 then - 9999 else uint p) ms ps"
proof (induction ms arbitrary: ps)
  case Nil
  then show ?case by simp
next
  case (Cons m ms)
  show ?case
  proof (cases ps)
    case Nil
    then show ?thesis by simp
  next
    case (Cons p ps')
    show ?thesis
      using Cons.IH[of ps'] out_pixel[of m p]
      by (simp add: Cons Let_def)
  qed
qed

lemma out_array:
  "map (map sint)
     (map2 (map2 (\<lambda>n s. if n = - 9999 then n else s))
        (map (map (\<lambda>v. if v = 0 then - 9999 else v)) (map (map ucast) (masks :: 8 word list list)))
        (map (map word_of_int) (map (map uint) (merged :: 8 word list list)))
      :: 16 word list list) =
   map2 (map2 (\<lambda>m p. if m = 0 then - 9999 else uint p)) masks merged"
proof (induction masks arbitrary: merged)
  case Nil
  then show ?case by simp
next
  case (Cons ms masks)
  show ?case
  proof (cases merged)
    case Nil
    then show ?thesis by simp
  next
    case (Cons ps merged')
    show ?thesis
      using Cons.IH[of merged'] out_row[of ms ps]
      by (simp add: Cons del: map_map of_int_uint)
  qed
qed

lemma shapes_eq:
  "(map length (map (map f) (map (map g) masks)) = map length (map (map h) (map (map k) merged))) =
   (map length masks = map length merged)"
  by (simp add: o_def)

text \<open>
  C8. When \<^verbatim>\<open>arr_to_tif\<close> writes the post-processed mask of \<^verbatim>\<open>_predict\<close> with the
  sentinel -9999, the file written has the profile of the source with \<^verbatim>\<open>count\<close> 1 and
  \<^verbatim>\<open>dtype\<close> int16, and one int16 band of the shape of the source's mask band: a pixel whose
  mask value is 0 holds -9999, every other pixel holds its predicted class.
\<close>

theorem arr_to_tif_nodata:
  fixes merged :: "8 word list list"
  assumes "arr_to_tif ext raster_f (SegArray (map (map uint) merged)) out_tif (- 9999) w = Inr w'"
    and "fs w raster_f = Some src"
    and "rio_open ext src = Inr (meta, masks)"
  shows "\<exists>out written.
           rio_write ext (meta\<lparr>count := 1, dtype := ''int16''\<rparr>) out = Inr written \<and>
           fs w' out_tif = Some written \<and>
           map length masks = map length merged \<and>
           map (map sint) out =
             map2 (map2 (\<lambda>m p. if m = 0 then - 9999 else uint p)) masks merged"
proof -
  let ?out = "map2 (map2 (\<lambda>n s. if n = - 9999 then n else s))
        (map (map (\<lambda>v. if v = 0 then - 9999 else v)) (map (map ucast) masks))
        (map (map word_of_int) (map (map uint) merged)) :: 16 word list list"
  have rd: "read_file (rio_open ext) (call (CallRioOpen raster_f) w) raster_f = Inr (meta, masks)"
    using assms(2,3) by (simp add: read_file_def call_def)
  have sh: "map length masks = map length merged"
    using assms(1) unfolding arr_to_tif_def Let_def rd
    by (simp add: shapes_eq del: map_map of_int_uint split: if_splits)
  obtain written where wr: "rio_write ext (meta\<lparr>count := 1, dtype := ''int16''\<rparr>) ?out = Inr written"
    and fw: "fs w' out_tif = Some written"
    using assms(1) unfolding arr_to_tif_def Let_def rd
    by (auto simp: shapes_eq call_def simp del: map_map of_int_uint split: if_splits sum.splits)
  show ?thesis
    using wr fw sh out_array[of masks merged] by blast
qed


theorem arr_to_tif_nodata_witness:
  "arr_to_tif demo_ext ''in/a.tif'' (SegArray (map (map uint) [[1, 1 :: 8 word]]))
       ''out/a_pred.tif'' (- 9999) demo_world =
     Inr (demo_world
          \<lparr>fs := (fs demo_world)
                  (''out/a_pred.tif'' \<mapsto>
                     PredTif (demo_profile\<lparr>count := 1, dtype := ''int16''\<rparr>) [[1, - 9999]]),
           calls := [CallRioOpen ''in/a.tif'', CallRioWrite ''out/a_pred.tif'']\<rparr>) \<and>
   fs demo_world ''in/a.tif'' = Some (SourceTif demo_profile [[[20000, 5]]] [[255, 0]]) \<and>
   rio_open demo_ext (SourceTif demo_profile [[[20000, 5]]] [[255, 0]]) =
     Inr (demo_profile, [[255, 0]]) \<and>
   (\<exists>out written.
      rio_write demo_ext (demo_profile\<lparr>count := 1, dtype := ''int16''\<rparr>) out = Inr written \<and>
      fs (demo_world
          \<lparr>fs := (fs demo_world)
                  (''out/a_pred.tif'' \<mapsto>
                     PredTif (demo_profile\<lparr>count := 1, dtype := ''int16''\<rparr>) [[1, - 9999]]),
           calls := [CallRioOpen ''in/a.tif'', CallRioWrite ''out/a_pred.tif'']\<rparr>)
        ''out/a_pred.tif'' = Some written \<and>
      map (map sint) out = [[1, - 9999]])"
proof -
  let ?src = "SourceTif demo_profile [[[20000, 5]]] [[255, 0]]"
  let ?w' = "demo_world
          \<lparr>fs := (fs demo_world)
                  (''out/a_pred.tif'' \<mapsto>
                     PredTif (demo_profile\<lparr>count := 1, dtype := ''int16''\<rparr>) [[1, - 9999]]),
           calls := [CallRioOpen ''in/a.tif'', CallRioWrite ''out/a_pred.tif'']\<rparr>"
  have a: "arr_to_tif demo_ext ''in/a.tif'' (SegArray (map (map uint) [[1, 1 :: 8 word]]))
             ''out/a_pred.tif'' (- 9999) demo_world = Inr ?w'"
    by (simp add: arr_to_tif_def Let_def demo_ext_def demo_world_def call_def read_file_def)
  have b: "fs demo_world ''in/a.tif'' = Some ?src"
    by (simp add: demo_world_def)
  have c: "rio_open demo_ext ?src = Inr (demo_profile, [[255, 0]])"
    by (simp add: demo_ext_def)
  from arr_to_tif_nodata[OF a b c]
  obtain out written where
    o: "rio_write demo_ext (demo_profile\<lparr>count := 1, dtype := ''int16''\<rparr>) out = Inr written"
      "fs ?w' ''out/a_pred.tif'' = Some written"
      "map (map sint) out =
         map2 (map2 (\<lambda>m p. if m = 0 then - 9999 else uint p)) [[255, 0 :: 8 word]] [[1, 1 :: 8 word]]"
    by blast
  have v: "map (map sint) out = [[1, - 9999]]"
    using o(3) by simp
  have e: "\<exists>out written.
      rio_write demo_ext (demo_profile\<lparr>count := 1, dtype := ''int16''\<rparr>) out = Inr written \<and>
      fs ?w' ''out/a_pred.tif'' = Some written \<and> map (map sint) out = [[1, - 9999]]"
    by (rule exI[of _ out], rule exI[of _ written]) (rule conjI[OF o(1) conjI[OF o(2) v]])
  show ?thesis
    by (rule conjI[OF a conjI[OF b conjI[OF c e]]])
qed

end
